theory Spec2Isabelle
  imports Main "HOL-Library.Word"
begin

chapter \<open>Definitions\<close>

section \<open>Deployment model (src/model/deployment.go)\<close>

text \<open>
  Go's \<open>int\<close> is a signed 64-bit integer on the platforms the service is built for:
  \<open>+\<close> wraps around, and \<open>>\<close>, \<open>>=\<close> compare the two's complement values
  (\<open><s\<close> and \<open><=s\<close> on words). A Go \<open>string\<close> is a sequence of bytes, as
  \<open>string\<close> is here. A pointer that may be nil is an \<open>option\<close>.
\<close>

type_synonym go_int = "64 word"

subsection \<open>Errors\<close>

text \<open>
  The validators are built from rules of the library ozzo-validation (v4), which is not
  part of the repository. A rule either accepts a value or returns its own error:
  \<open>Required\<close> "cannot be blank", \<open>Length\<close> "the length must be between ...",
  \<open>In\<close> "must be a valid value", \<open>Each\<close> the errors of the elements by index.
  \<open>ValidateStruct\<close> returns the errors of the fields by JSON name.
\<close>

datatype rule_error =
    ErrRequired
  | ErrLengthOutOfRange
  | ErrInInvalid
  | ErrEach "(nat \<times> rule_error) list"

datatype error =
    ErrInvalidDeviceID
  | ErrInvalidDeploymentDefinition
  | ErrInvalidDeploymentDefinitionNoDevices
  | ErrInvalidDeploymentDefinitionConflict
  | ErrInvalidDeploymentToGroupDefinitionConflict
  | RuleError rule_error
  | ValidationErrors "(string \<times> rule_error) list"
  | Wrap error string
  | MarshalerError string

subsection \<open>Status vocabulary\<close>

type_synonym DeploymentStatus = string
type_synonym DeploymentType = string

definition DeploymentStatusFinished :: DeploymentStatus where
  "DeploymentStatusFinished = ''finished''"

definition DeploymentStatusInProgress :: DeploymentStatus where
  "DeploymentStatusInProgress = ''inprogress''"

definition DeploymentStatusPending :: DeploymentStatus where
  "DeploymentStatusPending = ''pending''"

definition DeploymentTypeSoftware :: DeploymentType where
  "DeploymentTypeSoftware = ''software''"

definition DeploymentTypeConfiguration :: DeploymentType where
  "DeploymentTypeConfiguration = ''configuration''"

text \<open>
  Modelled from the spec: the per-device status constants
  (\<open>DeviceDeploymentStatusDownloading\<close>, ...) and the type \<open>Stats\<close> are declared in
  a file of package \<open>model\<close> that is not under src/. The spec lists the thirteen
  statuses as a closed set and calls \<open>Stats\<close> a mapping from them to a count. The
  counters are read with \<open>d.Stats[k]\<close> and their sum is compared with
  \<open>d.MaxDevices\<close>, an \<open>int\<close>, so the counts are \<open>int\<close> as well; reading a
  key that a Go map does not hold gives 0.
\<close>

datatype DeviceDeploymentStatus =
    DeviceDeploymentStatusDownloading
  | DeviceDeploymentStatusInstalling
  | DeviceDeploymentStatusRebooting
  | DeviceDeploymentStatusSuccess
  | DeviceDeploymentStatusAlreadyInst
  | DeviceDeploymentStatusFailure
  | DeviceDeploymentStatusAborted
  | DeviceDeploymentStatusNoArtifact
  | DeviceDeploymentStatusDecommissioned
  | DeviceDeploymentStatusPauseBeforeInstall
  | DeviceDeploymentStatusPauseBeforeCommit
  | DeviceDeploymentStatusPauseBeforeReboot
  | DeviceDeploymentStatusPending

type_synonym Stats = "DeviceDeploymentStatus \<rightharpoonup> go_int"

definition counter :: "Stats \<Rightarrow> DeviceDeploymentStatus \<Rightarrow> go_int" where
  "counter s k = (case s k of None \<Rightarrow> 0 | Some n \<Rightarrow> n)"

subsection \<open>Constructor and deployment\<close>

text \<open>
  A \<open>time.Time\<close> is an instant; only its identity matters here. \<open>Deployment\<close>
  embeds \<open>*DeploymentConstructor\<close>: the field of that name holds the pointer.
  \<open>Id_d\<close> is the field \<open>Id\<close> (HOL's \<open>Id\<close> is the identity relation).
\<close>

type_synonym Time = int

record DeploymentConstructor =
  Name :: string
  ArtifactName :: string
  Devices :: "string list"
  AllDevices :: bool
  Group :: string

record Deployment =
  DeploymentConstructor :: "DeploymentConstructor option"
  Created :: "Time option"
  Finished :: "Time option"
  Id_d :: string
  Artifacts :: "string list"
  Stats :: Stats
  Status :: DeploymentStatus
  DeviceCount :: "go_int option"
  MaxDevices :: go_int
  DeviceList :: "string list"
  Type :: DeploymentType
  Configuration :: "8 word list"

subsection \<open>Derived status\<close>

text \<open>
  The three methods read fields of their receiver, which is taken to be a deployment (on
  a nil receiver the first read panics). \<open>&&\<close> binds tighter than \<open>||\<close>, and the
  six counters are added from left to right.
\<close>

definition IsNotPending :: "Deployment \<Rightarrow> bool" where
  "IsNotPending d =
     (if 0 <s counter (Stats d) DeviceDeploymentStatusDownloading \<or>
         0 <s counter (Stats d) DeviceDeploymentStatusInstalling \<or>
         0 <s counter (Stats d) DeviceDeploymentStatusRebooting \<or>
         0 <s counter (Stats d) DeviceDeploymentStatusSuccess \<or>
         0 <s counter (Stats d) DeviceDeploymentStatusAlreadyInst \<or>
         0 <s counter (Stats d) DeviceDeploymentStatusFailure \<or>
         0 <s counter (Stats d) DeviceDeploymentStatusAborted \<or>
         0 <s counter (Stats d) DeviceDeploymentStatusNoArtifact \<or>
         0 <s counter (Stats d) DeviceDeploymentStatusPauseBeforeInstall \<or>
         0 <s counter (Stats d) DeviceDeploymentStatusPauseBeforeCommit \<or>
         0 <s counter (Stats d) DeviceDeploymentStatusPauseBeforeReboot
      then True else False)"

definition IsFinished :: "Deployment \<Rightarrow> bool" where
  "IsFinished d =
     (if Finished d \<noteq> None \<or>
         0 <s MaxDevices d \<and>
         MaxDevices d <=s
           counter (Stats d) DeviceDeploymentStatusAlreadyInst +
           counter (Stats d) DeviceDeploymentStatusSuccess +
           counter (Stats d) DeviceDeploymentStatusFailure +
           counter (Stats d) DeviceDeploymentStatusNoArtifact +
           counter (Stats d) DeviceDeploymentStatusDecommissioned +
           counter (Stats d) DeviceDeploymentStatusAborted
      then True else False)"

definition GetStatus :: "Deployment \<Rightarrow> DeploymentStatus" where
  "GetStatus d =
     (if IsFinished d then DeploymentStatusFinished
      else if IsNotPending d then DeploymentStatusInProgress
      else DeploymentStatusPending)"

subsection \<open>Validation rules of ozzo-validation\<close>

text \<open>
  \<open>Required\<close> rejects the empty value. Every other rule used here accepts an empty
  value without looking further (the library's documented convention: "An empty value
  is considered valid. Use the Required rule to make sure a value is not empty.").
  \<open>Length\<close> counts bytes; a bound of 0 is no bound.
\<close>

definition Required :: "string \<Rightarrow> rule_error option" where
  "Required v = (if v = [] then Some ErrRequired else None)"

definition Length :: "nat \<Rightarrow> nat \<Rightarrow> string \<Rightarrow> rule_error option" where
  "Length lo hi v =
     (if v = [] then None
      else if (0 < lo \<and> length v < lo) \<or> (0 < hi \<and> hi < length v) \<or>
              (lo = 0 \<and> hi = 0 \<and> 0 < length v)
           then Some ErrLengthOutOfRange
      else None)"

definition In :: "string list \<Rightarrow> string \<Rightarrow> rule_error option" where
  "In elements v =
     (if v = [] then None
      else if v \<in> set elements then None
      else Some ErrInInvalid)"

text \<open>\<open>validation.Validate(value, rules...)\<close>: the first rule that fails decides.\<close>

fun Validate :: "(string \<Rightarrow> rule_error option) list \<Rightarrow> string \<Rightarrow> rule_error option" where
  "Validate [] v = None"
| "Validate (r # rs) v = (case r v of Some e \<Rightarrow> Some e | None \<Rightarrow> Validate rs v)"

text \<open>\<open>Each\<close> validates every element and collects the failures with their indices.\<close>

fun each_errors :: "(string \<Rightarrow> rule_error option) list \<Rightarrow> nat \<Rightarrow> string list \<Rightarrow> (nat \<times> rule_error) list" where
  "each_errors rules i [] = []"
| "each_errors rules i (v # vs) =
     (case Validate rules v of
        Some e \<Rightarrow> (i, e) # each_errors rules (Suc i) vs
      | None \<Rightarrow> each_errors rules (Suc i) vs)"

definition Each :: "(string \<Rightarrow> rule_error option) list \<Rightarrow> string list \<Rightarrow> rule_error option" where
  "Each rules vs =
     (let errs = each_errors rules 0 vs
      in if errs = [] then None else Some (ErrEach errs))"

text \<open>
  \<open>ValidateStruct\<close> validates every field (it does not stop at the first failure) and
  returns the failures by field name, or nil when there is none.
\<close>

fun field_errors :: "(string \<times> rule_error option) list \<Rightarrow> (string \<times> rule_error) list" where
  "field_errors [] = []"
| "field_errors ((n, None) # fs) = field_errors fs"
| "field_errors ((n, Some e) # fs) = (n, e) # field_errors fs"

definition ValidateStruct :: "(string \<times> rule_error option) list \<Rightarrow> error option" where
  "ValidateStruct fs =
     (let errs = field_errors fs
      in if errs = [] then None else Some (ValidationErrors errs))"

text \<open>
  Modelled from the spec: \<open>lengthIn1To4096\<close> is a rule declared in a file of package
  \<open>model\<close> that is not under src/; the spec gives the bounds ("length in [1, 4096]").
\<close>

definition lengthIn1To4096 :: "string \<Rightarrow> rule_error option" where
  "lengthIn1To4096 = Length 1 4096"

subsection \<open>Validators\<close>

definition DeploymentStatus_Validate :: "DeploymentStatus \<Rightarrow> error option" where
  "DeploymentStatus_Validate stat =
     map_option RuleError
       (In [DeploymentStatusFinished, DeploymentStatusInProgress, DeploymentStatusPending] stat)"

definition DeploymentType_Validate :: "DeploymentType \<Rightarrow> error option" where
  "DeploymentType_Validate typ =
     map_option RuleError (In [DeploymentTypeSoftware, DeploymentTypeConfiguration] typ)"

definition DeploymentConstructor_Validate :: "DeploymentConstructor \<Rightarrow> error option" where
  "DeploymentConstructor_Validate c =
     ValidateStruct
       [(''name'', Validate [Required, lengthIn1To4096] (Name c)),
        (''artifact_name'', Validate [Required, lengthIn1To4096] (ArtifactName c)),
        (''devices'', Each [Required] (Devices c))]"

definition ValidateNew :: "DeploymentConstructor \<Rightarrow> error option" where
  "ValidateNew c =
     (case DeploymentConstructor_Validate c of
        Some err \<Rightarrow> Some err
      | None \<Rightarrow>
          if length (Group c) = 0 then
            if length (Devices c) = 0 \<and> \<not> AllDevices c then
              Some ErrInvalidDeploymentDefinitionNoDevices
            else if 0 < length (Devices c) \<and> AllDevices c then
              Some ErrInvalidDeploymentDefinitionConflict
            else None
          else
            if 0 < length (Devices c) \<or> AllDevices c then
              Some ErrInvalidDeploymentToGroupDefinitionConflict
            else None)"

subsection \<open>The validators as calls on a store\<close>

text \<open>
  What a call of \<open>Validate\<close> or \<open>ValidateNew\<close> can do to its caller's constructor
  depends on what they share. In memory a \<open>DeploymentConstructor\<close> is a struct whose
  field \<open>Devices\<close> is a slice header: a pointer into an array of strings (nil for the
  nil slice) and a length. Strings are immutable. The store holds the structs and the
  arrays, each addressed by its index.
\<close>

record SliceHeader =
  Data :: "(nat \<times> nat) option"
  Len :: nat

record DeploymentConstructor_mem =
  Name_m :: string
  ArtifactName_m :: string
  Devices_m :: SliceHeader
  AllDevices_m :: bool
  Group_m :: string

record Store =
  structs :: "DeploymentConstructor_mem list"
  arrays :: "string list list"

text \<open>
  Reading through a pointer fails (the program panics) where the pointer is nil or
  dangling; \<open>alloc\<close> makes a new variable holding a struct and gives its address.
\<close>

definition load :: "Store \<Rightarrow> nat \<Rightarrow> DeploymentConstructor_mem option" where
  "load st p = (if p < length (structs st) then Some (structs st ! p) else None)"

definition alloc :: "DeploymentConstructor_mem \<Rightarrow> Store \<Rightarrow> nat \<times> Store" where
  "alloc v st = (length (structs st), st\<lparr>structs := structs st @ [v]\<rparr>)"

definition elements :: "Store \<Rightarrow> SliceHeader \<Rightarrow> string list option" where
  "elements st h =
     (case Data h of
        None \<Rightarrow> if Len h = 0 then Some [] else None
      | Some (a, off) \<Rightarrow>
          if a < length (arrays st) \<and> off + Len h \<le> length (arrays st ! a)
          then Some (take (Len h) (drop off (arrays st ! a)))
          else None)"

text \<open>
  The library is handed the pointers \<open>&c\<close>, \<open>&c.Name\<close>, \<open>&c.ArtifactName\<close> and
  \<open>&c.Devices\<close> and reads the values behind them (by reflection): a string field, or
  the elements of a slice field through its header.
\<close>

definition read_string ::
  "Store \<Rightarrow> nat \<Rightarrow> (DeploymentConstructor_mem \<Rightarrow> string) \<Rightarrow> string option" where
  "read_string st q f = map_option f (load st q)"

definition read_strings ::
  "Store \<Rightarrow> nat \<Rightarrow> (DeploymentConstructor_mem \<Rightarrow> SliceHeader) \<Rightarrow> string list option" where
  "read_strings st q f = (case load st q of None \<Rightarrow> None | Some m \<Rightarrow> elements st (f m))"

text \<open>
  Both methods have value receivers: the call copies the struct at \<open>p\<close> (the slice
  header with it, not the array) into the receiver \<open>c\<close>, a new variable. The result
  is \<open>None\<close> where the program panics, and otherwise the error returned together with
  the store the call leaves. \<open>ValidateNew\<close> calls \<open>Validate\<close> on its own receiver
  and then reads that receiver again.
\<close>

definition Validate_mem :: "Store \<Rightarrow> nat \<Rightarrow> (error option \<times> Store) option" where
  "Validate_mem st p =
     (case load st p of
        None \<Rightarrow> None
      | Some v \<Rightarrow>
          let (c, st1) = alloc v st
          in case (read_string st1 c Name_m, read_string st1 c ArtifactName_m,
                   read_strings st1 c Devices_m) of
               (Some name, Some artifact_name, Some devices) \<Rightarrow>
                 Some (ValidateStruct
                         [(''name'', Validate [Required, lengthIn1To4096] name),
                          (''artifact_name'', Validate [Required, lengthIn1To4096] artifact_name),
                          (''devices'', Each [Required] devices)], st1)
             | _ \<Rightarrow> None)"

definition ValidateNew_mem :: "Store \<Rightarrow> nat \<Rightarrow> (error option \<times> Store) option" where
  "ValidateNew_mem st p =
     (case load st p of
        None \<Rightarrow> None
      | Some v \<Rightarrow>
          let (c, st1) = alloc v st
          in case Validate_mem st1 c of
               None \<Rightarrow> None
             | Some (Some err, st2) \<Rightarrow> Some (Some err, st2)
             | Some (None, st2) \<Rightarrow>
                 (case load st2 c of
                    None \<Rightarrow> None
                  | Some r \<Rightarrow>
                      if length (Group_m r) = 0 then
                        if Len (Devices_m r) = 0 \<and> \<not> AllDevices_m r then
                          Some (Some ErrInvalidDeploymentDefinitionNoDevices, st2)
                        else if 0 < Len (Devices_m r) \<and> AllDevices_m r then
                          Some (Some ErrInvalidDeploymentDefinitionConflict, st2)
                        else Some (None, st2)
                      else
                        if 0 < Len (Devices_m r) \<or> AllDevices_m r then
                          Some (Some ErrInvalidDeploymentToGroupDefinitionConflict, st2)
                        else Some (None, st2)))"

text \<open>
  The constructor a pointer designates, as a value: the struct's fields with the
  elements of its slice. \<open>unchanged st st'\<close>: every struct and every array of \<open>st\<close>
  is in \<open>st'\<close>, at its address and with its content; \<open>st'\<close> may hold new structs.
\<close>

definition value_at :: "Store \<Rightarrow> nat \<Rightarrow> DeploymentConstructor option" where
  "value_at st p =
     (case load st p of
        None \<Rightarrow> None
      | Some m \<Rightarrow>
          (case elements st (Devices_m m) of
             None \<Rightarrow> None
           | Some ds \<Rightarrow>
               Some \<lparr>Name = Name_m m, ArtifactName = ArtifactName_m m, Devices = ds,
                     AllDevices = AllDevices_m m, Group = Group_m m\<rparr>))"

definition unchanged :: "Store \<Rightarrow> Store \<Rightarrow> bool" where
  "unchanged st st' \<longleftrightarrow>
     take (length (structs st)) (structs st') = structs st \<and>
     length (structs st) \<le> length (structs st') \<and>
     arrays st' = arrays st"

text \<open>A store that holds a given constructor at address 0, its devices in array 0.\<close>

definition store_of :: "DeploymentConstructor \<Rightarrow> Store" where
  "store_of c =
     \<lparr>structs =
        [\<lparr>Name_m = Name c, ArtifactName_m = ArtifactName c,
          Devices_m = \<lparr>Data = Some (0, 0), Len = length (Devices c)\<rparr>,
          AllDevices_m = AllDevices c, Group_m = Group c\<rparr>],
      arrays = [Devices c]\<rparr>"

subsection \<open>Creating a deployment\<close>

text \<open>
  \<open>NewDeployment\<close> reads the clock (\<open>time.Now\<close>) and draws a version 4 UUID
  (\<open>uuid.NewV4\<close>, then \<open>String\<close>). Both belong to the world outside the
  program: the clock's reading, and the sequence of identifiers the generator hands out
  with the number already drawn.
\<close>

record World =
  clock :: Time
  uuid_source :: "nat \<Rightarrow> string"
  uuid_drawn :: nat

definition time_Now :: "World \<Rightarrow> Time \<times> World" where
  "time_Now w = (clock w, w)"

definition uuid_NewV4 :: "World \<Rightarrow> string \<times> World" where
  "uuid_NewV4 w = (uuid_source w (uuid_drawn w), w\<lparr>uuid_drawn := Suc (uuid_drawn w)\<rparr>)"

text \<open>
  Modelled from the spec: \<open>NewDeviceDeploymentStats\<close> is declared in a file of
  package \<open>model\<close> that is not under src/; the spec says that creation "initializes
  stats to all-zero".
\<close>

definition NewDeviceDeploymentStats :: Stats where
  "NewDeviceDeploymentStats = (\<lambda>k. Some 0)"

definition empty_DeploymentConstructor :: DeploymentConstructor where
  "empty_DeploymentConstructor =
     \<lparr>Name = [], ArtifactName = [], Devices = [], AllDevices = False, Group = []\<rparr>"

definition NewDeployment :: "World \<Rightarrow> (error + Deployment) \<times> World" where
  "NewDeployment w =
     (let (now, w1) = time_Now w;
          (uid, w2) = uuid_NewV4 w1;
          id = uid
      in (Inr \<lparr>DeploymentConstructor = Some empty_DeploymentConstructor,
                Created = Some now,
                Finished = None,
                Id_d = id,
                Artifacts = [],
                Stats = NewDeviceDeploymentStats,
                Status = [],
                DeviceCount = None,
                MaxDevices = 0,
                DeviceList = [],
                Type = [],
                Configuration = []\<rparr>, w2))"

definition NewDeploymentFromConstructor ::
  "DeploymentConstructor option \<Rightarrow> World \<Rightarrow> (error + Deployment) \<times> World" where
  "NewDeploymentFromConstructor constructor w =
     (case NewDeployment w of
        (Inl err, w') \<Rightarrow> (Inl (Wrap err ''failed to create deployment from constructor''), w')
      | (Inr deployment, w') \<Rightarrow>
          (Inr (deployment\<lparr>DeploymentConstructor := constructor,
                           Status := DeploymentStatusPending,
                           DeviceCount := Some 0\<rparr>), w'))"

subsection \<open>JSON output\<close>

text \<open>
  \<open>MarshalJSON\<close> hands \<open>encoding/json\<close> a struct \<open>slim\<close> that embeds the
  deployment (under the method-free type \<open>Alias\<close>) and declares two fields of its own,
  \<open>Devices\<close> (nil) and \<open>Type\<close>. The encoder writes the fields in declaration
  order, embedded structs in place and a nil embedded pointer not at all; where two
  fields have the same JSON name the one at the smaller depth is written and the other
  is dropped; a field tagged \<open>-\<close> is never written and one tagged \<open>omitempty\<close>
  is left out when it is false, 0, nil or of length 0. So \<open>slim.Devices\<close> hides
  \<open>DeploymentConstructor.Devices\<close> and \<open>slim.Type\<close> hides \<open>Deployment.Type\<close>;
  \<open>AllDevices\<close> (\<open>all_devices,omitempty\<close>) is hidden by nothing.

  The output is modelled as the object's members in order. A timestamp is written by
  \<open>time.Time\<close>'s own marshaler, which fails on a year outside 0..9999, and then
  \<open>json.Marshal\<close> fails: the marshaler is the parameter \<open>enc\<close>. The receiver is
  taken to be non-nil (\<open>d.Type\<close> panics on a nil receiver).
\<close>

datatype json =
    JString string
  | JInt go_int
  | JBool bool
  | JNull
  | JStrings "string list"
  | JBase64 "8 word list"

definition constructor_members :: "DeploymentConstructor option \<Rightarrow> (string \<times> json) list" where
  "constructor_members p =
     (case p of
        None \<Rightarrow> []
      | Some c \<Rightarrow>
          (if Name c = [] then [] else [(''name'', JString (Name c))]) @
          (if ArtifactName c = [] then [] else [(''artifact_name'', JString (ArtifactName c))]) @
          (if AllDevices c then [(''all_devices'', JBool True)] else []))"

definition MarshalJSON :: "(Time \<Rightarrow> error + json) \<Rightarrow> Deployment \<Rightarrow> error + (string \<times> json) list" where
  "MarshalJSON enc d =
     (let slim_Devices = ([] :: string list);
          slim_Type = (if Type d = [] then DeploymentTypeSoftware else Type d)
      in case (case Created d of None \<Rightarrow> Inr JNull | Some t \<Rightarrow> enc t) of
           Inl e \<Rightarrow> Inl e
         | Inr created \<Rightarrow>
            (case (case Finished d of None \<Rightarrow> Inr [] | Some t \<Rightarrow> map_sum id (\<lambda>j. [(''finished'', j)]) (enc t)) of
               Inl e \<Rightarrow> Inl e
             | Inr finished \<Rightarrow>
                 Inr (constructor_members (DeploymentConstructor d) @
                      [(''created'', created)] @
                      finished @
                      [(''id'', JString (Id_d d))] @
                      (if Artifacts d = [] then [] else [(''artifacts'', JStrings (Artifacts d))]) @
                      [(''status'', JString (Status d))] @
                      [(''device_count'', (case DeviceCount d of None \<Rightarrow> JNull | Some n \<Rightarrow> JInt n))] @
                      (if MaxDevices d = 0 then [] else [(''max_devices'', JInt (MaxDevices d))]) @
                      (if Configuration d = [] then [] else [(''configuration'', JBase64 (Configuration d))]) @
                      (if slim_Devices = [] then [] else [(''devices'', JStrings slim_Devices)]) @
                      (if slim_Type = [] then [] else [(''type'', JString slim_Type)]))))"

subsection \<open>Concrete inputs\<close>

text \<open>
  The constructors and deployments of the spec's scenarios A to D, a deployment for a
  group, one whose only reports are of decommissioned devices, a world and a marshaler
  for timestamps.
\<close>

definition scenario_A :: DeploymentConstructor where
  "scenario_A =
     \<lparr>Name = ''r1'', ArtifactName = ''app-v2'', Devices = [''d1'', ''d2''],
      AllDevices = False, Group = []\<rparr>"

definition scenario_B :: DeploymentConstructor where
  "scenario_B =
     \<lparr>Name = ''r1'', ArtifactName = ''app-v2'', Devices = [''d1'', ''d2''],
      AllDevices = True, Group = []\<rparr>"

definition group_constructor :: DeploymentConstructor where
  "group_constructor =
     \<lparr>Name = ''r1'', ArtifactName = ''app-v2'', Devices = [],
      AllDevices = False, Group = ''production''\<rparr>"

definition all_devices_constructor :: DeploymentConstructor where
  "all_devices_constructor =
     \<lparr>Name = ''r1'', ArtifactName = ''app-v2'', Devices = [],
      AllDevices = True, Group = []\<rparr>"

definition two_devices :: "DeploymentConstructor \<Rightarrow> Stats \<Rightarrow> Deployment" where
  "two_devices c s =
     \<lparr>DeploymentConstructor = Some c,
      Created = Some 1609459200,
      Finished = None,
      Id_d = ''3f2b8c1e-5d4a-4c6b-9e7f-0a1b2c3d4e5f'',
      Artifacts = [],
      Stats = s,
      Status = DeploymentStatusPending,
      DeviceCount = Some 2,
      MaxDevices = 2,
      DeviceList = [''d1'', ''d2''],
      Type = [],
      Configuration = []\<rparr>"

definition scenario_C :: Deployment where
  "scenario_C =
     two_devices scenario_A
       (NewDeviceDeploymentStats
          (DeviceDeploymentStatusSuccess \<mapsto> 1, DeviceDeploymentStatusFailure \<mapsto> 1))"

definition scenario_D :: Deployment where
  "scenario_D =
     two_devices scenario_A
       (NewDeviceDeploymentStats(DeviceDeploymentStatusInstalling \<mapsto> 1))"

definition one_decommissioned :: Deployment where
  "one_decommissioned =
     two_devices scenario_A
       (NewDeviceDeploymentStats(DeviceDeploymentStatusDecommissioned \<mapsto> 1))"

text \<open>
  A store whose struct 0 is scenario B, its devices a window of two elements into an
  array of four.
\<close>

definition example_store :: Store where
  "example_store =
     \<lparr>structs =
        [\<lparr>Name_m = ''r1'', ArtifactName_m = ''app-v2'',
          Devices_m = \<lparr>Data = Some (0, 1), Len = 2\<rparr>,
          AllDevices_m = True, Group_m = []\<rparr>],
      arrays = [[''d0'', ''d1'', ''d2'', ''d3'']]\<rparr>"

definition example_world :: World where
  "example_world =
     \<lparr>clock = 1609459200, uuid_source = (\<lambda>n. replicate (Suc n) CHR ''a''), uuid_drawn = 0\<rparr>"

text \<open>What \<open>NewDeploymentFromConstructor\<close> returns for the all-devices constructor.\<close>

definition created_for_all_devices :: Deployment where
  "created_for_all_devices =
     \<lparr>DeploymentConstructor = Some all_devices_constructor,
      Created = Some 1609459200,
      Finished = None,
      Id_d = ''a'',
      Artifacts = [],
      Stats = NewDeviceDeploymentStats,
      Status = DeploymentStatusPending,
      DeviceCount = Some 0,
      MaxDevices = 0,
      DeviceList = [],
      Type = [],
      Configuration = []\<rparr>"

definition example_enc :: "Time \<Rightarrow> error + json" where
  "example_enc t =
     (if t < 0 then Inl (MarshalerError ''Time.MarshalJSON: year outside of range [0,9999]'')
      else Inr (JString ''2021-01-01T00:00:00Z''))"

chapter \<open>Theorems\<close>

section \<open>Helper facts\<close>

lemma DeploymentStatus_distinct:
  "DeploymentStatusFinished \<noteq> DeploymentStatusInProgress"
  "DeploymentStatusFinished \<noteq> DeploymentStatusPending"
  "DeploymentStatusInProgress \<noteq> DeploymentStatusPending"
  "DeploymentStatusFinished \<noteq> []"
  "DeploymentStatusInProgress \<noteq> []"
  "DeploymentStatusPending \<noteq> []"
  by (simp_all add: DeploymentStatusFinished_def DeploymentStatusInProgress_def
      DeploymentStatusPending_def)

lemmas scenario_defs =
  scenario_A_def scenario_B_def scenario_C_def scenario_D_def one_decommissioned_def
  two_devices_def NewDeviceDeploymentStats_def counter_def word_sless_alt word_sle_eq

text \<open>
  Go adds the six counters modulo \<open>2^64\<close>. As long as the exact sum of their values
  lies in the range of \<open>int\<close>, the wrapped sum is the exact one.
\<close>

lemma sint_sum6:
  fixes a b c d e f :: go_int
  assumes "- (2 ^ 63) \<le> sint a + sint b + sint c + sint d + sint e + sint f"
      and "sint a + sint b + sint c + sint d + sint e + sint f < 2 ^ 63"
  shows "sint (a + b + c + d + e + f) = sint a + sint b + sint c + sint d + sint e + sint f"
proof -
  let ?K = "sint a + sint b + sint c + sint d + sint e + sint f"
  have "a + b + c + d + e + f = (word_of_int ?K :: go_int)"
    by simp
  then have "sint (a + b + c + d + e + f) = sint (word_of_int ?K :: go_int)"
    by (rule arg_cong)
  also have "\<dots> = signed_take_bit (LENGTH(64) - 1) ?K"
    by (simp only: sint_sbintrunc')
  also have "\<dots> = signed_take_bit 63 ?K"
    by simp
  also have "\<dots> = ?K"
    using assms by (simp add: signed_take_bit_int_eq_self)
  finally show ?thesis .
qed

lemma IsFinished_exact_sum:
  fixes d :: Deployment
  defines "terminal \<equiv>
     sint (counter (Stats d) DeviceDeploymentStatusAlreadyInst) +
     sint (counter (Stats d) DeviceDeploymentStatusSuccess) +
     sint (counter (Stats d) DeviceDeploymentStatusFailure) +
     sint (counter (Stats d) DeviceDeploymentStatusNoArtifact) +
     sint (counter (Stats d) DeviceDeploymentStatusDecommissioned) +
     sint (counter (Stats d) DeviceDeploymentStatusAborted)"
  assumes "- (2 ^ 63) \<le> terminal" and "terminal < 2 ^ 63"
  shows "IsFinished d \<longleftrightarrow>
           Finished d \<noteq> None \<or> 0 < sint (MaxDevices d) \<and> sint (MaxDevices d) \<le> terminal"
  using assms(2,3) unfolding terminal_def IsFinished_def
  by (simp add: word_sless_alt word_sle_eq sint_sum6)

section \<open>Derived status\<close>

text \<open>
  C1. \<open>GetStatus\<close> answers with the precedence finished, then inprogress, then
  pending: it returns finished exactly when \<open>IsFinished\<close> holds, inprogress exactly
  when \<open>IsFinished\<close> fails and \<open>IsNotPending\<close> holds, and pending exactly when both
  fail. In particular a deployment whose \<open>Finished\<close> timestamp is set is finished
  whatever its counters \<open>s\<close> and its \<open>MaxDevices\<close> \<open>m\<close> are.
\<close>

theorem GetStatus_precedence:
  "(GetStatus d = DeploymentStatusFinished \<longleftrightarrow> IsFinished d) \<and>
   (GetStatus d = DeploymentStatusInProgress \<longleftrightarrow> \<not> IsFinished d \<and> IsNotPending d) \<and>
   (GetStatus d = DeploymentStatusPending \<longleftrightarrow> \<not> IsFinished d \<and> \<not> IsNotPending d) \<and>
   (Finished d \<noteq> None \<longrightarrow>
      IsFinished (d\<lparr>Stats := s, MaxDevices := m\<rparr>) \<and>
      GetStatus (d\<lparr>Stats := s, MaxDevices := m\<rparr>) = DeploymentStatusFinished)"
  using DeploymentStatus_distinct by (auto simp: GetStatus_def IsFinished_def)

theorem GetStatus_precedence_witness:
  "Finished (scenario_D\<lparr>Finished := Some 1609462800\<rparr>) \<noteq> None \<and>
   IsNotPending (scenario_D\<lparr>Finished := Some 1609462800\<rparr>) \<and>
   GetStatus (scenario_D\<lparr>Finished := Some 1609462800\<rparr>) = DeploymentStatusFinished \<and>
   GetStatus scenario_D = DeploymentStatusInProgress \<and>
   GetStatus scenario_C = DeploymentStatusFinished"
proof -
  let ?d = "scenario_D\<lparr>Finished := Some 1609462800\<rparr>"
  have set: "Finished ?d \<noteq> None" by simp
  have same: "?d\<lparr>Stats := Stats ?d, MaxDevices := MaxDevices ?d\<rparr> = ?d" by simp
  have np: "IsNotPending ?d" "IsNotPending scenario_D" "\<not> IsFinished scenario_D"
    "IsFinished scenario_C"
    by (simp_all add: IsNotPending_def IsFinished_def scenario_defs)
  from GetStatus_precedence [where d = ?d and s = "Stats ?d" and m = "MaxDevices ?d"] set same
  have "GetStatus ?d = DeploymentStatusFinished" by simp
  moreover from GetStatus_precedence [of scenario_D] np
  have "GetStatus scenario_D = DeploymentStatusInProgress" by simp
  moreover from GetStatus_precedence [of scenario_C] np
  have "GetStatus scenario_C = DeploymentStatusFinished" by simp
  ultimately show ?thesis using set np by simp
qed

text \<open>
  C2. \<open>IsFinished\<close> holds if and only if the \<open>Finished\<close> timestamp is set, or
  \<open>MaxDevices\<close> is positive and the sum of the counters already-installed, success,
  failure, no-artifact, decommissioned and aborted (Go's sum of \<open>int\<close>s) is at least
  \<open>MaxDevices\<close>. Consequently a deployment with \<open>MaxDevices = 0\<close> and no
  \<open>Finished\<close> timestamp is not finished, whatever its counters \<open>s\<close> are.
\<close>

theorem IsFinished_iff:
  "(IsFinished d \<longleftrightarrow>
      Finished d \<noteq> None \<or>
      0 <s MaxDevices d \<and>
      MaxDevices d <=s
        counter (Stats d) DeviceDeploymentStatusAlreadyInst +
        counter (Stats d) DeviceDeploymentStatusSuccess +
        counter (Stats d) DeviceDeploymentStatusFailure +
        counter (Stats d) DeviceDeploymentStatusNoArtifact +
        counter (Stats d) DeviceDeploymentStatusDecommissioned +
        counter (Stats d) DeviceDeploymentStatusAborted) \<and>
   (Finished d = None \<and> MaxDevices d = 0 \<longrightarrow> \<not> IsFinished (d\<lparr>Stats := s\<rparr>))"
  by (simp add: IsFinished_def)

theorem IsFinished_iff_witness:
  "IsFinished scenario_C \<and>
   Finished (scenario_C\<lparr>MaxDevices := 0\<rparr>) = None \<and>
   MaxDevices (scenario_C\<lparr>MaxDevices := 0\<rparr>) = 0 \<and>
   \<not> IsFinished (scenario_C\<lparr>MaxDevices := 0\<rparr>)"
proof -
  let ?d = "scenario_C\<lparr>MaxDevices := 0\<rparr>"
  have h: "Finished ?d = None \<and> MaxDevices ?d = 0"
    by (simp add: scenario_defs)
  have same: "?d\<lparr>Stats := Stats ?d\<rparr> = ?d" by simp
  from IsFinished_iff [of ?d "Stats ?d"] h same have "\<not> IsFinished ?d" by simp
  moreover from IsFinished_iff [of scenario_C] have "IsFinished scenario_C"
    by (simp add: scenario_defs)
  ultimately show ?thesis using h by simp
qed

text \<open>
  C3. \<open>IsNotPending\<close> holds if and only if at least one of the eleven counters
  downloading, installing, rebooting, success, already-installed, failure, aborted,
  no-artifact, pause-before-install, pause-before-commit and pause-before-reboot is
  greater than zero. The pending and decommissioned counters are not consulted:
  setting them to anything, or removing them, does not change the answer.
\<close>

theorem IsNotPending_iff:
  "(IsNotPending d \<longleftrightarrow>
      (\<exists>k \<in> {DeviceDeploymentStatusDownloading, DeviceDeploymentStatusInstalling,
              DeviceDeploymentStatusRebooting, DeviceDeploymentStatusSuccess,
              DeviceDeploymentStatusAlreadyInst, DeviceDeploymentStatusFailure,
              DeviceDeploymentStatusAborted, DeviceDeploymentStatusNoArtifact,
              DeviceDeploymentStatusPauseBeforeInstall,
              DeviceDeploymentStatusPauseBeforeCommit,
              DeviceDeploymentStatusPauseBeforeReboot}.
         0 <s counter (Stats d) k)) \<and>
   IsNotPending
     (d\<lparr>Stats := (Stats d)(DeviceDeploymentStatusPending := p,
                             DeviceDeploymentStatusDecommissioned := q)\<rparr>) = IsNotPending d"
  by (simp add: IsNotPending_def counter_def)

theorem IsNotPending_iff_witness:
  "IsNotPending scenario_D \<and> \<not> IsNotPending one_decommissioned \<and>
   \<not> IsNotPending (scenario_D\<lparr>Stats := [DeviceDeploymentStatusPending \<mapsto> 2]\<rparr>)"
  using IsNotPending_iff [of scenario_D] IsNotPending_iff [of one_decommissioned]
    IsNotPending_iff [of "scenario_D\<lparr>Stats := [DeviceDeploymentStatusPending \<mapsto> 2]\<rparr>"]
  by (simp add: scenario_defs)

text \<open>
  C10. Take a deployment whose \<open>Finished\<close> timestamp is unset, whose counters are
  counts (none is negative), in which the decommissioned counter is the only positive
  one, and where \<open>MaxDevices\<close> is 0 or the decommissioned count is below it. Then
  \<open>GetStatus\<close> returns pending: decommissioned devices count towards the finished
  threshold, but alone they never move a deployment out of the pending state.
\<close>

theorem GetStatus_only_decommissioned:
  assumes "Finished d = None"
      and "\<forall>k. 0 <=s counter (Stats d) k"
      and "0 <s counter (Stats d) DeviceDeploymentStatusDecommissioned"
      and "\<forall>k. k \<noteq> DeviceDeploymentStatusDecommissioned \<longrightarrow> \<not> 0 <s counter (Stats d) k"
      and "MaxDevices d = 0 \<or>
           counter (Stats d) DeviceDeploymentStatusDecommissioned <s MaxDevices d"
  shows "GetStatus d = DeploymentStatusPending \<and> \<not> IsFinished d \<and> \<not> IsNotPending d"
proof -
  have zero: "counter (Stats d) k = 0" if "k \<noteq> DeviceDeploymentStatusDecommissioned" for k
  proof -
    from assms(2) have "0 <=s counter (Stats d) k" by blast
    moreover from assms(4) that have "\<not> 0 <s counter (Stats d) k" by blast
    ultimately show ?thesis by (metis signed.le_less)
  qed
  have np: "\<not> IsNotPending d"
    by (simp add: IsNotPending_def zero)
  have nf: "\<not> IsFinished d"
    using assms(1,5) by (auto simp: IsFinished_def zero)
  from np nf show ?thesis by (simp add: GetStatus_def)
qed

theorem GetStatus_only_decommissioned_witness:
  "GetStatus one_decommissioned = DeploymentStatusPending"
proof -
  have 1: "Finished one_decommissioned = None" by (simp add: scenario_defs)
  have 2: "\<forall>k. 0 <=s counter (Stats one_decommissioned) k" by (simp add: scenario_defs)
  have 3: "0 <s counter (Stats one_decommissioned) DeviceDeploymentStatusDecommissioned"
    by (simp add: scenario_defs)
  have 4: "\<forall>k. k \<noteq> DeviceDeploymentStatusDecommissioned \<longrightarrow>
             \<not> 0 <s counter (Stats one_decommissioned) k"
    by (simp add: scenario_defs)
  have 5: "MaxDevices one_decommissioned = 0 \<or>
           counter (Stats one_decommissioned) DeviceDeploymentStatusDecommissioned
             <s MaxDevices one_decommissioned"
    by (simp add: scenario_defs)
  from GetStatus_only_decommissioned [OF 1 2 3 4 5] show ?thesis by simp
qed

section \<open>Validation\<close>

lemmas validator_defs =
  DeploymentConstructor_Validate_def ValidateStruct_def Each_def Required_def
  lengthIn1To4096_def Length_def

text \<open>
  C4. For a structurally valid constructor (one that \<open>Validate\<close> accepts) with an
  empty \<open>Group\<close>, \<open>ValidateNew\<close> succeeds if and only if exactly one of
  "\<open>Devices\<close> is non-empty" and "\<open>AllDevices\<close> is true" holds. When neither holds
  it fails with the no-devices error, when both hold with the devices/all-devices
  conflict error.
\<close>

theorem ValidateNew_without_group:
  assumes "DeploymentConstructor_Validate c = None" and "Group c = []"
  shows "(ValidateNew c = None \<longleftrightarrow> (Devices c \<noteq> []) \<noteq> AllDevices c) \<and>
         (Devices c = [] \<and> \<not> AllDevices c \<longrightarrow>
            ValidateNew c = Some ErrInvalidDeploymentDefinitionNoDevices) \<and>
         (Devices c \<noteq> [] \<and> AllDevices c \<longrightarrow>
            ValidateNew c = Some ErrInvalidDeploymentDefinitionConflict)"
  using assms by (auto simp: ValidateNew_def)

theorem ValidateNew_without_group_witness:
  "DeploymentConstructor_Validate scenario_A = None \<and> Group scenario_A = [] \<and>
   ValidateNew scenario_A = None \<and>
   DeploymentConstructor_Validate scenario_B = None \<and> Group scenario_B = [] \<and>
   ValidateNew scenario_B = Some ErrInvalidDeploymentDefinitionConflict"
proof -
  have a: "DeploymentConstructor_Validate scenario_A = None" "Group scenario_A = []"
    by (simp_all add: validator_defs scenario_A_def)
  have b: "DeploymentConstructor_Validate scenario_B = None" "Group scenario_B = []"
    by (simp_all add: validator_defs scenario_B_def)
  from ValidateNew_without_group [OF a] have "ValidateNew scenario_A = None"
    by (simp add: scenario_A_def)
  moreover from ValidateNew_without_group [OF b]
  have "ValidateNew scenario_B = Some ErrInvalidDeploymentDefinitionConflict"
    by (simp add: scenario_B_def)
  ultimately show ?thesis using a b by simp
qed

text \<open>
  C5. For a structurally valid constructor with a non-empty \<open>Group\<close>,
  \<open>ValidateNew\<close> succeeds if and only if \<open>Devices\<close> is empty and \<open>AllDevices\<close>
  is false; otherwise it fails with the group conflict error.
\<close>

theorem ValidateNew_with_group:
  assumes "DeploymentConstructor_Validate c = None" and "Group c \<noteq> []"
  shows "ValidateNew c =
           (if Devices c = [] \<and> \<not> AllDevices c then None
            else Some ErrInvalidDeploymentToGroupDefinitionConflict)"
  using assms by (auto simp: ValidateNew_def)

theorem ValidateNew_with_group_witness:
  "DeploymentConstructor_Validate group_constructor = None \<and>
   Group group_constructor \<noteq> [] \<and>
   ValidateNew group_constructor = None \<and>
   ValidateNew (group_constructor\<lparr>AllDevices := True\<rparr>) =
     Some ErrInvalidDeploymentToGroupDefinitionConflict"
proof -
  let ?g = "group_constructor\<lparr>AllDevices := True\<rparr>"
  have a: "DeploymentConstructor_Validate group_constructor = None"
    "Group group_constructor \<noteq> []"
    by (simp_all add: validator_defs group_constructor_def)
  have b: "DeploymentConstructor_Validate ?g = None" "Group ?g \<noteq> []"
    by (simp_all add: validator_defs group_constructor_def)
  from ValidateNew_with_group [OF a] have "ValidateNew group_constructor = None"
    by (simp add: group_constructor_def)
  moreover from ValidateNew_with_group [OF b]
  have "ValidateNew ?g = Some ErrInvalidDeploymentToGroupDefinitionConflict"
    by simp
  ultimately show ?thesis using a by simp
qed

text \<open>
  Allocation adds a struct at a new address and touches nothing else; reading touches
  nothing at all. So a call leaves every struct and every array of the store it started
  from as it was.
\<close>

lemma load_alloc:
  "load (snd (alloc v st)) p = (if p = length (structs st) then Some v else load st p)"
  by (auto simp: load_def alloc_def nth_append)

lemma fst_alloc: "fst (alloc v st) = length (structs st)"
  by (simp add: alloc_def)

lemma elements_alloc: "elements (snd (alloc v st)) h = elements st h"
  by (auto simp: elements_def alloc_def split: option.splits)

lemma unchanged_refl: "unchanged st st"
  by (simp add: unchanged_def)

lemma unchanged_trans: "unchanged st st' \<Longrightarrow> unchanged st' st'' \<Longrightarrow> unchanged st st''"
proof -
  assume a: "unchanged st st'" and b: "unchanged st' st''"
  let ?n = "length (structs st)" and ?m = "length (structs st')"
  from a have 1: "take ?n (structs st') = structs st" and 2: "?n \<le> ?m"
    and 3: "arrays st' = arrays st" by (simp_all add: unchanged_def)
  from b have 4: "take ?m (structs st'') = structs st'" and 5: "?m \<le> length (structs st'')"
    and 6: "arrays st'' = arrays st'" by (simp_all add: unchanged_def)
  have "take ?n (structs st'') = take ?n (take ?m (structs st''))"
    using 2 by (simp add: min.absorb1)
  also have "\<dots> = structs st" using 4 1 by simp
  finally have "take ?n (structs st'') = structs st" .
  with 2 5 3 6 show ?thesis by (simp add: unchanged_def)
qed

lemma unchanged_alloc: "unchanged st (snd (alloc v st))"
  by (simp add: unchanged_def alloc_def)

lemma unchanged_load:
  assumes "unchanged st st'" and "load st p = Some m"
  shows "load st' p = Some m"
proof -
  from assms(2) have p: "p < length (structs st)" and m: "structs st ! p = m"
    by (auto simp: load_def split: if_splits)
  from assms(1) have t: "take (length (structs st)) (structs st') = structs st"
    and l: "length (structs st) \<le> length (structs st')"
    by (simp_all add: unchanged_def)
  from p have "structs st' ! p = take (length (structs st)) (structs st') ! p" by simp
  with t m have "structs st' ! p = m" by simp
  with p l show ?thesis by (simp add: load_def)
qed

lemma unchanged_elements: "unchanged st st' \<Longrightarrow> elements st' h = elements st h"
  by (auto simp: unchanged_def elements_def split: option.splits)

lemma unchanged_value_at:
  assumes "unchanged st st'" and "value_at st p = Some c"
  shows "value_at st' p = Some c"
proof -
  from assms(2) obtain m where m: "load st p = Some m"
    by (auto simp: value_at_def split: option.splits)
  from unchanged_load [OF assms(1) m] unchanged_elements [OF assms(1)] assms(2) m
  show ?thesis by (simp add: value_at_def)
qed

lemma elements_length: "elements st h = Some ds \<Longrightarrow> length ds = Len h"
  by (auto simp: elements_def split: option.splits if_splits)

lemma Validate_mem_result:
  assumes "value_at st p = Some c"
  shows "\<exists>st'. Validate_mem st p = Some (DeploymentConstructor_Validate c, st') \<and>
               unchanged st st'"
proof -
  from assms obtain m ds where m: "load st p = Some m"
    and ds: "elements st (Devices_m m) = Some ds"
    and c: "c = \<lparr>Name = Name_m m, ArtifactName = ArtifactName_m m, Devices = ds,
                 AllDevices = AllDevices_m m, Group = Group_m m\<rparr>"
    by (auto simp: value_at_def split: option.splits)
  let ?st1 = "snd (alloc m st)"
  have "Validate_mem st p = Some (DeploymentConstructor_Validate c, ?st1)"
    using m ds c
    by (simp add: Validate_mem_def split_beta fst_alloc load_alloc elements_alloc
        read_string_def read_strings_def DeploymentConstructor_Validate_def)
  with unchanged_alloc show ?thesis by blast
qed

lemma ValidateNew_mem_result:
  assumes "value_at st p = Some c"
  shows "\<exists>st'. ValidateNew_mem st p = Some (ValidateNew c, st') \<and> unchanged st st'"
proof -
  from assms obtain m ds where m: "load st p = Some m"
    and ds: "elements st (Devices_m m) = Some ds"
    and c: "c = \<lparr>Name = Name_m m, ArtifactName = ArtifactName_m m, Devices = ds,
                 AllDevices = AllDevices_m m, Group = Group_m m\<rparr>"
    by (auto simp: value_at_def split: option.splits)
  let ?q = "length (structs st)"
  let ?st1 = "snd (alloc m st)"
  have q: "load ?st1 ?q = Some m" by (simp add: load_alloc)
  then have "value_at ?st1 ?q = Some c"
    using ds c by (simp add: value_at_def elements_alloc)
  from Validate_mem_result [OF this] obtain st2
    where v: "Validate_mem ?st1 ?q = Some (DeploymentConstructor_Validate c, st2)"
      and u: "unchanged ?st1 st2"
    by blast
  from unchanged_load [OF u q] have r: "load st2 ?q = Some m" .
  have len: "length ds = Len (Devices_m m)" using ds by (rule elements_length)
  have "ValidateNew_mem st p = Some (ValidateNew c, st2)"
    using m v r len c
    by (simp add: ValidateNew_mem_def split_beta fst_alloc ValidateNew_def
        split: option.splits)
  moreover have "unchanged st st2"
    using unchanged_alloc u by (rule unchanged_trans)
  ultimately show ?thesis by blast
qed

text \<open>
  The comparison of stores tells a write: a store in which one element of the shared
  array is overwritten is not \<open>unchanged\<close>, and the pointer designates another value.
\<close>

lemma unchanged_tells_write:
  "\<not> unchanged example_store (example_store\<lparr>arrays := [[''d0'', ''x'', ''d2'', ''d3'']]\<rparr>) \<and>
   value_at (example_store\<lparr>arrays := [[''d0'', ''x'', ''d2'', ''d3'']]\<rparr>) 0 \<noteq>
     value_at example_store 0"
  by (simp add: unchanged_def value_at_def example_store_def load_def elements_def)

lemma value_at_store_of: "value_at (store_of c) 0 = Some c"
  by (simp add: value_at_def store_of_def load_def elements_def)

text \<open>
  C7. Take any store and any pointer that designates a constructor \<open>c\<close> in it (every
  constructor is designated in some store). A call of \<open>Validate\<close> and a call of
  \<open>ValidateNew\<close> return, leave every struct and every array of the store as it was,
  and so leave the pointer designating \<open>c\<close>: the input is not mutated. Running
  \<open>ValidateNew\<close> a second time, in the store the first run left, returns the same
  result as the first run and again leaves the input as it was.
\<close>

theorem validators_do_not_mutate:
  assumes "value_at st p = Some c"
  shows "(\<exists>st1. Validate_mem st p = Some (DeploymentConstructor_Validate c, st1) \<and>
                unchanged st st1 \<and> value_at st1 p = Some c) \<and>
         (\<exists>st1 st2. ValidateNew_mem st p = Some (ValidateNew c, st1) \<and>
                unchanged st st1 \<and> value_at st1 p = Some c \<and>
                ValidateNew_mem st1 p = Some (ValidateNew c, st2) \<and>
                unchanged st st2 \<and> value_at st2 p = Some c)"
proof
  from Validate_mem_result [OF assms] obtain st1
    where "Validate_mem st p = Some (DeploymentConstructor_Validate c, st1)"
      and "unchanged st st1" by blast
  with unchanged_value_at [OF _ assms]
  show "\<exists>st1. Validate_mem st p = Some (DeploymentConstructor_Validate c, st1) \<and>
              unchanged st st1 \<and> value_at st1 p = Some c"
    by blast
next
  from ValidateNew_mem_result [OF assms] obtain st1
    where 1: "ValidateNew_mem st p = Some (ValidateNew c, st1)" and u1: "unchanged st st1"
    by blast
  from unchanged_value_at [OF u1 assms] have v1: "value_at st1 p = Some c" .
  from ValidateNew_mem_result [OF v1] obtain st2
    where 2: "ValidateNew_mem st1 p = Some (ValidateNew c, st2)" and u2: "unchanged st1 st2"
    by blast
  from u1 u2 have u: "unchanged st st2" by (rule unchanged_trans)
  from unchanged_value_at [OF u assms] have v2: "value_at st2 p = Some c" .
  from 1 u1 v1 2 u v2
  show "\<exists>st1 st2. ValidateNew_mem st p = Some (ValidateNew c, st1) \<and>
                unchanged st st1 \<and> value_at st1 p = Some c \<and>
                ValidateNew_mem st1 p = Some (ValidateNew c, st2) \<and>
                unchanged st st2 \<and> value_at st2 p = Some c"
    by blast
qed

theorem validators_do_not_mutate_witness:
  "value_at example_store 0 = Some scenario_B \<and>
   (\<exists>st1 st2.
      ValidateNew_mem example_store 0 = Some (Some ErrInvalidDeploymentDefinitionConflict, st1) \<and>
      value_at st1 0 = Some scenario_B \<and>
      ValidateNew_mem st1 0 = Some (Some ErrInvalidDeploymentDefinitionConflict, st2) \<and>
      value_at st2 0 = Some scenario_B)"
proof -
  have h: "value_at example_store 0 = Some scenario_B"
    by (simp add: value_at_def example_store_def load_def elements_def scenario_B_def)
  have r: "ValidateNew scenario_B = Some ErrInvalidDeploymentDefinitionConflict"
    by (simp add: ValidateNew_def validator_defs scenario_B_def)
  from validators_do_not_mutate [OF h] r h show ?thesis by auto
qed

text \<open>
  C9, as the claim states it, fails on the empty string: both validators accept it,
  and it is none of the listed values.
\<close>

theorem Validate_empty_counterexample:
  "DeploymentStatus_Validate [] = None \<and>
   [] \<notin> {DeploymentStatusPending, DeploymentStatusInProgress, DeploymentStatusFinished} \<and>
   DeploymentType_Validate [] = None \<and>
   [] \<notin> {DeploymentTypeSoftware, DeploymentTypeConfiguration}"
  by (simp add: DeploymentStatus_Validate_def DeploymentType_Validate_def In_def
      DeploymentStatusFinished_def DeploymentStatusInProgress_def DeploymentStatusPending_def
      DeploymentTypeSoftware_def DeploymentTypeConfiguration_def)

text \<open>
  C9, amended. \<open>DeploymentStatus.Validate\<close> succeeds exactly on pending, inprogress,
  finished and the empty string, and returns the invalid-value error on every other
  string; \<open>DeploymentType.Validate\<close> succeeds exactly on software, configuration and
  the empty string, and returns the invalid-value error on every other string.
\<close>

theorem Validate_membership:
  "DeploymentStatus_Validate s =
     (if s \<in> {DeploymentStatusPending, DeploymentStatusInProgress, DeploymentStatusFinished}
         \<or> s = []
      then None else Some (RuleError ErrInInvalid)) \<and>
   DeploymentType_Validate t =
     (if t \<in> {DeploymentTypeSoftware, DeploymentTypeConfiguration} \<or> t = []
      then None else Some (RuleError ErrInInvalid))"
  by (auto simp: DeploymentStatus_Validate_def DeploymentType_Validate_def In_def)

theorem Validate_membership_witness:
  "DeploymentStatus_Validate ''inprogress'' = None \<and>
   DeploymentStatus_Validate ''aborted'' = Some (RuleError ErrInInvalid) \<and>
   DeploymentType_Validate ''configuration'' = None \<and>
   DeploymentType_Validate ''firmware'' = Some (RuleError ErrInInvalid)"
  using Validate_membership [of "''inprogress''" "''configuration''"]
    Validate_membership [of "''aborted''" "''firmware''"]
  by (simp add: DeploymentStatusFinished_def DeploymentStatusInProgress_def
      DeploymentStatusPending_def DeploymentTypeSoftware_def DeploymentTypeConfiguration_def)

section \<open>Creation\<close>

text \<open>
  C8. For every constructor, \<open>NewDeploymentFromConstructor\<close> returns a deployment
  (never an error) whose id is the identifier the generator hands out at this call (the
  generator moves on by one), whose \<open>Created\<close> is the clock's reading, whose counters
  are all zero, whose \<open>Status\<close> is pending and whose \<open>DeviceCount\<close> points at 0. It
  holds the constructor it was given, has no \<open>Finished\<close> timestamp, and its derived
  status is pending as well.
\<close>

theorem NewDeploymentFromConstructor_fields:
  "\<exists>d. NewDeploymentFromConstructor c w = (Inr d, w\<lparr>uuid_drawn := Suc (uuid_drawn w)\<rparr>) \<and>
        Id_d d = uuid_source w (uuid_drawn w) \<and>
        Created d = Some (clock w) \<and>
        (\<forall>k. counter (Stats d) k = 0) \<and>
        Status d = DeploymentStatusPending \<and>
        DeviceCount d = Some 0 \<and>
        DeploymentConstructor d = c \<and>
        Finished d = None \<and>
        GetStatus d = DeploymentStatusPending"
  by (simp add: NewDeploymentFromConstructor_def NewDeployment_def time_Now_def uuid_NewV4_def
      NewDeviceDeploymentStats_def counter_def GetStatus_def IsFinished_def IsNotPending_def)

theorem NewDeploymentFromConstructor_fields_witness:
  "\<exists>d. fst (NewDeploymentFromConstructor (Some scenario_A) example_world) = Inr d \<and>
        Id_d d = ''a'' \<and> Created d = Some 1609459200 \<and>
        counter (Stats d) DeviceDeploymentStatusSuccess = 0 \<and>
        Status d = ''pending'' \<and> DeviceCount d = Some 0"
  using NewDeploymentFromConstructor_fields [of "Some scenario_A" example_world]
  by (auto simp: example_world_def DeploymentStatusPending_def)

text \<open>
  The identifier is fresh as far as the generator's are: when the generator never hands
  out an identifier twice, two deployments created one after the other differ in their ids.
\<close>

lemma NewDeploymentFromConstructor_ids_differ:
  assumes "inj (uuid_source w)"
      and "NewDeploymentFromConstructor c1 w = (Inr d1, w1)"
      and "NewDeploymentFromConstructor c2 w1 = (Inr d2, w2)"
  shows "Id_d d1 \<noteq> Id_d d2"
proof -
  from assms(2) have 1: "Id_d d1 = uuid_source w (uuid_drawn w)"
    and w1: "w1 = w\<lparr>uuid_drawn := Suc (uuid_drawn w)\<rparr>"
    by (auto simp: NewDeploymentFromConstructor_def NewDeployment_def time_Now_def
        uuid_NewV4_def)
  from assms(3) have "Id_d d2 = uuid_source w1 (uuid_drawn w1)"
    by (auto simp: NewDeploymentFromConstructor_def NewDeployment_def time_Now_def
        uuid_NewV4_def)
  with w1 have 2: "Id_d d2 = uuid_source w (Suc (uuid_drawn w))" by simp
  from assms(1) have "uuid_source w (uuid_drawn w) \<noteq> uuid_source w (Suc (uuid_drawn w))"
    by (simp add: inj_eq)
  with 1 2 show ?thesis by simp
qed

section \<open>JSON output\<close>

lemma in_omitempty: "x \<in> set (if b then [] else [y]) \<longleftrightarrow> \<not> b \<and> x = y"
  by simp

lemma constructor_members_iff:
  "(k, v) \<in> set (constructor_members p) \<longleftrightarrow>
     (\<exists>c. p = Some c \<and>
        (k = ''name'' \<and> v = JString (Name c) \<and> Name c \<noteq> [] \<or>
         k = ''artifact_name'' \<and> v = JString (ArtifactName c) \<and> ArtifactName c \<noteq> [] \<or>
         k = ''all_devices'' \<and> v = JBool True \<and> AllDevices c))"
  by (cases p) (auto simp: constructor_members_def)

text \<open>
  \<open>MarshalJSON\<close> returns an object whenever the marshaler of timestamps accepts the
  timestamps that are set; the object's members are these.
\<close>

lemma MarshalJSON_returns:
  assumes "\<forall>t. Created d = Some t \<or> Finished d = Some t \<longrightarrow> (\<exists>j. enc t = Inr j)"
  shows "\<exists>created finished. MarshalJSON enc d =
       Inr (constructor_members (DeploymentConstructor d) @
            [(''created'', created)] @
            finished @
            [(''id'', JString (Id_d d))] @
            (if Artifacts d = [] then [] else [(''artifacts'', JStrings (Artifacts d))]) @
            [(''status'', JString (Status d))] @
            [(''device_count'', (case DeviceCount d of None \<Rightarrow> JNull | Some n \<Rightarrow> JInt n))] @
            (if MaxDevices d = 0 then [] else [(''max_devices'', JInt (MaxDevices d))]) @
            (if Configuration d = [] then [] else [(''configuration'', JBase64 (Configuration d))]) @
            [(''type'', JString (if Type d = [] then DeploymentTypeSoftware else Type d))]) \<and>
       (\<forall>k v. (k, v) \<in> set finished \<longrightarrow> k = ''finished'')"
proof -
  obtain created where created:
    "(case Created d of None \<Rightarrow> Inr JNull | Some t \<Rightarrow> enc t) = Inr created"
    using assms by (cases "Created d") auto
  obtain finished where finished:
    "(case Finished d of None \<Rightarrow> Inr [] | Some t \<Rightarrow> map_sum id (\<lambda>j. [(''finished'', j)]) (enc t))
       = Inr finished"
    and fin_keys: "\<And>k v. (k, v) \<in> set finished \<Longrightarrow> k = ''finished''"
    using assms by (cases "Finished d") auto
  have sw: "DeploymentTypeSoftware \<noteq> []" by (simp add: DeploymentTypeSoftware_def)
  have "MarshalJSON enc d =
       Inr (constructor_members (DeploymentConstructor d) @
            [(''created'', created)] @
            finished @
            [(''id'', JString (Id_d d))] @
            (if Artifacts d = [] then [] else [(''artifacts'', JStrings (Artifacts d))]) @
            [(''status'', JString (Status d))] @
            [(''device_count'', (case DeviceCount d of None \<Rightarrow> JNull | Some n \<Rightarrow> JInt n))] @
            (if MaxDevices d = 0 then [] else [(''max_devices'', JInt (MaxDevices d))]) @
            (if Configuration d = [] then [] else [(''configuration'', JBase64 (Configuration d))]) @
            [(''type'', JString (if Type d = [] then DeploymentTypeSoftware else Type d))])"
    using sw by (simp add: MarshalJSON_def created finished)
  with fin_keys show ?thesis by blast
qed

text \<open>
  C6, as the claim states it, fails for a deployment created from a valid constructor
  that targets all devices: its JSON output has the member \<open>all_devices\<close>.
\<close>

theorem MarshalJSON_all_devices_counterexample:
  "ValidateNew all_devices_constructor = None \<and>
   fst (NewDeploymentFromConstructor (Some all_devices_constructor) example_world) =
     Inr created_for_all_devices \<and>
   MarshalJSON example_enc created_for_all_devices =
     Inr [(''name'', JString ''r1''),
          (''artifact_name'', JString ''app-v2''),
          (''all_devices'', JBool True),
          (''created'', JString ''2021-01-01T00:00:00Z''),
          (''id'', JString ''a''),
          (''status'', JString ''pending''),
          (''device_count'', JInt 0),
          (''type'', JString ''software'')]"
proof -
  have "ValidateNew all_devices_constructor = None"
    by (simp add: ValidateNew_def validator_defs all_devices_constructor_def)
  moreover have
    "fst (NewDeploymentFromConstructor (Some all_devices_constructor) example_world) =
       Inr created_for_all_devices"
    by (simp add: NewDeploymentFromConstructor_def NewDeployment_def time_Now_def
        uuid_NewV4_def example_world_def created_for_all_devices_def)
  moreover have "MarshalJSON example_enc created_for_all_devices =
     Inr [(''name'', JString ''r1''),
          (''artifact_name'', JString ''app-v2''),
          (''all_devices'', JBool True),
          (''created'', JString ''2021-01-01T00:00:00Z''),
          (''id'', JString ''a''),
          (''status'', JString ''pending''),
          (''device_count'', JInt 0),
          (''type'', JString ''software'')]"
    by (simp add: MarshalJSON_def constructor_members_def example_enc_def
        created_for_all_devices_def all_devices_constructor_def DeploymentTypeSoftware_def
        DeploymentStatusPending_def)
  ultimately show ?thesis by simp
qed

text \<open>
  C6, amended. For every deployment whose set timestamps can be marshalled,
  \<open>MarshalJSON\<close> returns an object that has no member \<open>devices\<close> and no member
  \<open>device_list\<close> (the raw device lists are omitted); that has the member
  \<open>all_devices\<close>, with the value true, exactly when the deployment holds a constructor
  whose \<open>AllDevices\<close> flag is true (the flag is omitted when it is false); and whose
  one member \<open>type\<close> is the deployment's \<open>Type\<close>, or software when that is empty.
\<close>

theorem MarshalJSON_members:
  assumes "\<forall>t. Created d = Some t \<or> Finished d = Some t \<longrightarrow> (\<exists>j. enc t = Inr j)"
  shows "\<exists>out. MarshalJSON enc d = Inr out \<and>
           (\<forall>v. (''devices'', v) \<notin> set out) \<and>
           (\<forall>v. (''device_list'', v) \<notin> set out) \<and>
           (\<forall>v. (''all_devices'', v) \<in> set out \<longleftrightarrow>
                  v = JBool True \<and> (\<exists>c. DeploymentConstructor d = Some c \<and> AllDevices c)) \<and>
           (\<forall>v. (''type'', v) \<in> set out \<longleftrightarrow>
                  v = JString (if Type d = [] then DeploymentTypeSoftware else Type d))"
proof -
  obtain created finished where
    out: "MarshalJSON enc d =
       Inr (constructor_members (DeploymentConstructor d) @
            [(''created'', created)] @
            finished @
            [(''id'', JString (Id_d d))] @
            (if Artifacts d = [] then [] else [(''artifacts'', JStrings (Artifacts d))]) @
            [(''status'', JString (Status d))] @
            [(''device_count'', (case DeviceCount d of None \<Rightarrow> JNull | Some n \<Rightarrow> JInt n))] @
            (if MaxDevices d = 0 then [] else [(''max_devices'', JInt (MaxDevices d))]) @
            (if Configuration d = [] then [] else [(''configuration'', JBase64 (Configuration d))]) @
            [(''type'', JString (if Type d = [] then DeploymentTypeSoftware else Type d))])"
    (is "_ = Inr ?out")
    and fin: "\<forall>k v. (k, v) \<in> set finished \<longrightarrow> k = ''finished''"
    using MarshalJSON_returns [OF assms] by blast
  have f1: "(''devices'', v) \<notin> set finished" "(''device_list'', v) \<notin> set finished"
    "(''all_devices'', v) \<notin> set finished" "(''type'', v) \<notin> set finished" for v
    using fin by fastforce+
  have 1: "(''devices'', v) \<notin> set ?out" for v
    by (simp only: set_append Un_iff in_omitempty constructor_members_iff f1) simp
  have 2: "(''device_list'', v) \<notin> set ?out" for v
    by (simp only: set_append Un_iff in_omitempty constructor_members_iff f1) simp
  have 3: "(''all_devices'', v) \<in> set ?out \<longleftrightarrow>
             v = JBool True \<and> (\<exists>c. DeploymentConstructor d = Some c \<and> AllDevices c)" for v
    by (simp only: set_append Un_iff in_omitempty constructor_members_iff f1) auto
  have 4: "(''type'', v) \<in> set ?out \<longleftrightarrow>
             v = JString (if Type d = [] then DeploymentTypeSoftware else Type d)" for v
    by (simp only: set_append Un_iff in_omitempty constructor_members_iff f1) auto
  from out 1 2 3 4 show ?thesis by blast
qed

theorem MarshalJSON_members_witness:
  "\<exists>out. MarshalJSON example_enc scenario_C = Inr out \<and>
          (''type'', JString ''software'') \<in> set out \<and>
          (''devices'', JStrings [''d1'', ''d2'']) \<notin> set out \<and>
          (''all_devices'', JBool True) \<notin> set out"
proof -
  have h: "\<forall>t. Created scenario_C = Some t \<or> Finished scenario_C = Some t \<longrightarrow>
             (\<exists>j. example_enc t = Inr j)"
    by (simp add: scenario_C_def two_devices_def example_enc_def)
  have c: "DeploymentConstructor scenario_C = Some scenario_A" "Type scenario_C = []"
    "\<not> AllDevices scenario_A"
    by (simp_all add: scenario_C_def two_devices_def scenario_A_def)
  from MarshalJSON_members [OF h] c show ?thesis
    by (auto simp: DeploymentTypeSoftware_def)
qed

end
